theory Spec2Isabelle
  imports Main
begin

section \<open>JavaScript values used by the Desktop component\<close>

text \<open>
  Pixel quantities (pointer coordinates, rectangle fields, the constants imported from the
  Window module) are integers: JavaScript numbers are exact on them. A style length such
  as \<^verbatim>\<open>"120px"\<close> is held as its number of pixels.

  The inline \<^verbatim>\<open>style.zIndex\<close> of an element is a string in the DOM: the empty
  string while nothing was assigned (Window.js puts only width, height, top and left into
  the inline style), and the decimal text of the number once \<^verbatim>\<open>handleFocusChange\<close>
  has assigned one. It is held as \<open>int option\<close>, \<open>None\<close> for the empty string, and
  \<open>zIndexString\<close> gives the string the code reads back.
\<close>

fun numberDigits :: "nat \<Rightarrow> string" where
  "numberDigits n =
     (if n < 10 then [''0123456789'' ! n]
      else numberDigits (n div 10) @ [''0123456789'' ! (n mod 10)])"

declare numberDigits.simps [simp del]

definition numberToString :: "int \<Rightarrow> string" where
  "numberToString i =
     (if i < 0 then CHR ''-'' # numberDigits (nat (- i)) else numberDigits (nat i))"

definition zIndexString :: "int option \<Rightarrow> string" where
  "zIndexString z = (case z of None \<Rightarrow> [] | Some i \<Rightarrow> numberToString i)"

text \<open>
  \<^verbatim>\<open>a < b\<close> on two strings compares them code unit by code unit; a proper prefix is
  smaller. \<^verbatim>\<open>a > b\<close> is \<^verbatim>\<open>b < a\<close>.
\<close>

fun stringLess :: "string \<Rightarrow> string \<Rightarrow> bool" where
  "stringLess [] [] = False"
| "stringLess [] (d # ds) = True"
| "stringLess (c # cs) [] = False"
| "stringLess (c # cs) (d # ds) =
     (if (of_char c :: nat) < of_char d then True
      else if (of_char d :: nat) < of_char c then False
      else stringLess cs ds)"

definition stringGreater :: "string \<Rightarrow> string \<Rightarrow> bool" where
  "stringGreater a b = stringLess b a"

text \<open>\<^verbatim>\<open>currentIndex - 1\<close> converts the string to a number first; the empty string is 0.\<close>

definition zIndexToNumber :: "int option \<Rightarrow> int" where
  "zIndexToNumber z = (case z of None \<Rightarrow> 0 | Some i \<Rightarrow> i)"

section \<open>The DOM as the handlers see it\<close>

datatype error = TypeError

record style =
  styleTop :: int
  styleLeft :: int
  styleWidth :: int
  styleHeight :: int
  zIndex :: "int option"

record rect =
  rectTop :: int
  rectLeft :: int
  rectWidth :: int
  rectHeight :: int

text \<open>
  An element is its class list and its parent node (a node address, or \<open>None\<close> for
  \<^verbatim>\<open>null\<close>). In Window.js every handle and the body are children of the window element.
\<close>

record element =
  classList :: "string list"
  parentNode :: "nat option"

text \<open>
  A mouse event carries \<^verbatim>\<open>clientX\<close> and \<^verbatim>\<open>clientY\<close>; a touch event carries
  \<^verbatim>\<open>touches\<close>, each touch a pair \<^verbatim>\<open>(clientX, clientY)\<close>. \<^verbatim>\<open>event.target\<close> may be
  absent, which the classifiers check.
\<close>

record event =
  eventType :: string
  clientX :: int
  clientY :: int
  touches :: "(int \<times> int) list"
  target :: "element option"

text \<open>\<^verbatim>\<open>dragState.current\<close>: \<^verbatim>\<open>{ element, x, y, top, left, width, height }\<close>.\<close>

record drag =
  dragElement :: element
  dragX :: int
  dragY :: int
  dragTop :: int
  dragLeft :: int
  dragWidth :: int
  dragHeight :: int

text \<open>
  The state the handlers read and write: the inline style of every node, the collection
  \<^verbatim>\<open>document.getElementsByClassName("window")\<close> in document order, the drag session and
  the focused node (\<open>None\<close> is the desktop surface).
\<close>

record desktop =
  styles :: "nat \<Rightarrow> style"
  visibleWindows :: "nat list"
  dragState :: "drag option"
  activeElement :: "nat option"

text \<open>
  \<^verbatim>\<open>minWidth\<close>, \<^verbatim>\<open>minHeight\<close> and \<^verbatim>\<open>bodyMargin\<close> are imported from the Window module,
  and \<^verbatim>\<open>getBoundingClientRect\<close> is answered by the rendering layer: both are parameters.
\<close>

record env =
  minWidth :: int
  minHeight :: int
  bodyMargin :: int
  getBoundingClientRect :: "(nat \<Rightarrow> style) \<Rightarrow> nat \<Rightarrow> rect"

section \<open>Classifiers and pointer position\<close>

definition isDragElement :: "element option \<Rightarrow> bool" where
  "isDragElement element =
     (case element of
        None \<Rightarrow> False
      | Some e \<Rightarrow>
          ''titleBar'' \<in> set (classList e) \<or>
          ''topResizer'' \<in> set (classList e) \<or>
          ''leftResizer'' \<in> set (classList e) \<or>
          ''rightResizer'' \<in> set (classList e) \<or>
          ''bottomResizer'' \<in> set (classList e) \<or>
          ''topLeftResizer'' \<in> set (classList e) \<or>
          ''topRightResizer'' \<in> set (classList e) \<or>
          ''bottomLeftResizer'' \<in> set (classList e) \<or>
          ''bottomRightResizer'' \<in> set (classList e))"

definition isFocusableElement :: "element option \<Rightarrow> bool" where
  "isFocusableElement element =
     (case element of
        None \<Rightarrow> False
      | Some e \<Rightarrow> isDragElement element \<or> ''body'' \<in> set (classList e))"

definition getEventPosition :: "event \<Rightarrow> error + (int \<times> int)" where
  "getEventPosition ev =
     (if take 5 (eventType ev) = ''touch''
      then (case touches ev of [] \<Rightarrow> Inl TypeError | t # _ \<Rightarrow> Inr (fst t, snd t))
      else Inr (clientX ev, clientY ev))"

section \<open>Writing a window's geometry\<close>

text \<open>
  \<^verbatim>\<open>if (x) element.style.left = ...\<close>: the number 0 is falsy, so a zero is never
  written. The element is absent when the handle has no parent; then nothing happens.

  The style takes any length for left and top. For width and height it takes a length
  that is not negative: the assignment of \<^verbatim>\<open>"-50px"\<close> is dropped and the property
  keeps the value it had.
\<close>

definition assignWidth :: "style \<Rightarrow> int \<Rightarrow> style" where
  "assignWidth st v = (if v < 0 then st else st\<lparr>styleWidth := v\<rparr>)"

definition assignHeight :: "style \<Rightarrow> int \<Rightarrow> style" where
  "assignHeight st v = (if v < 0 then st else st\<lparr>styleHeight := v\<rparr>)"

definition moveElement :: "style \<Rightarrow> int \<Rightarrow> int \<Rightarrow> style" where
  "moveElement st x y =
     (let st1 = (if x \<noteq> 0 then st\<lparr>styleLeft := x\<rparr> else st)
      in if y \<noteq> 0 then st1\<lparr>styleTop := y\<rparr> else st1)"

definition resizeElement :: "style \<Rightarrow> int \<Rightarrow> int \<Rightarrow> style" where
  "resizeElement st w h =
     (let st1 = (if w \<noteq> 0 then assignWidth st w else st)
      in if h \<noteq> 0 then assignHeight st1 h else st1)"

definition onElement :: "nat option \<Rightarrow> (style \<Rightarrow> style) \<Rightarrow> desktop \<Rightarrow> desktop" where
  "onElement node f s =
     (case node of
        None \<Rightarrow> s
      | Some n \<Rightarrow> s\<lparr>styles := (styles s)(n := f (styles s n))\<rparr>)"

section \<open>Focus promotion\<close>

text \<open>
  The loop of \<^verbatim>\<open>handleFocusChange\<close> visits every window of the collection, the target
  included, and compares the two \<^verbatim>\<open>style.zIndex\<close> strings with \<^verbatim>\<open>>\<close>.
\<close>

definition lowerWindow :: "int option \<Rightarrow> (nat \<Rightarrow> style) \<Rightarrow> nat \<Rightarrow> (nat \<Rightarrow> style)" where
  "lowerWindow cutoffIndex sty w =
     (let currentIndex = zIndex (sty w)
      in if stringGreater (zIndexString currentIndex) (zIndexString cutoffIndex)
         then sty(w := (sty w)\<lparr>zIndex := Some (zIndexToNumber currentIndex - 1)\<rparr>)
         else sty)"

definition handleFocusChange :: "event \<Rightarrow> desktop \<Rightarrow> (error \<times> desktop) + desktop" where
  "handleFocusChange ev s =
     (case target ev of
        None \<Rightarrow> Inl (TypeError, s)
      | Some e \<Rightarrow>
          (case parentNode e of
             None \<Rightarrow> Inl (TypeError, s)
           | Some targetWindow \<Rightarrow>
               (let cutoffIndex = zIndex (styles s targetWindow);
                    sty = foldl (lowerWindow cutoffIndex) (styles s) (visibleWindows s);
                    topmost = max (int (length (visibleWindows s)) - 1) 0
                in Inr (s\<lparr>styles := sty(targetWindow := (sty targetWindow)\<lparr>zIndex := Some topmost\<rparr>),
                          activeElement := Some targetWindow\<rparr>))))"

section \<open>Pointer handlers\<close>

text \<open>
  A handler returns the new state, or the exception together with the state at the moment
  it was thrown. \<^verbatim>\<open>event.preventDefault()\<close> acts on the event only and is left out.
\<close>

definition handleMouseDown :: "env \<Rightarrow> event \<Rightarrow> desktop \<Rightarrow> (error \<times> desktop) + desktop" where
  "handleMouseDown c ev s =
     (let element = target ev;
          focused = (if isFocusableElement element then handleFocusChange ev s
                     else Inr (s\<lparr>activeElement := None\<rparr>))
      in case focused of
           Inl err \<Rightarrow> Inl err
         | Inr s1 \<Rightarrow>
             if isDragElement element then
               (case getEventPosition ev of
                  Inl err \<Rightarrow> Inl (err, s1)
                | Inr (x, y) \<Rightarrow>
                    (case element of
                       None \<Rightarrow> Inl (TypeError, s1)
                     | Some e \<Rightarrow>
                         (case parentNode e of
                            None \<Rightarrow> Inl (TypeError, s1)
                          | Some window \<Rightarrow>
                              (let r = getBoundingClientRect c (styles s1) window
                               in Inr (s1\<lparr>dragState :=
                                          Some \<lparr>dragElement = e, dragX = x, dragY = y,
                                                dragTop = rectTop r, dragLeft = rectLeft r,
                                                dragWidth = rectWidth r,
                                                dragHeight = rectHeight r\<rparr>\<rparr>)))))
             else Inr s1)"

definition handleMouseMove :: "env \<Rightarrow> event \<Rightarrow> desktop \<Rightarrow> (error \<times> desktop) + desktop" where
  "handleMouseMove c ev s =
     (case dragState s of
        None \<Rightarrow> Inr s
      | Some state \<Rightarrow>
          (case getEventPosition ev of
             Inl err \<Rightarrow> Inl (err, s)
           | Inr (x, y) \<Rightarrow>
               (let element = dragElement state;
                    window = parentNode element;
                    xResizeDelta = dragWidth state + x - dragX state;
                    yResizeDelta = dragHeight state + y - dragY state;
                    xResizeOffset = dragWidth state - x + dragX state;
                    yResizeOffset = dragHeight state - y + dragY state;
                    xMoveDelta = dragLeft state + x - dragX state;
                    yMoveDelta = dragTop state + y - dragY state;
                    xMoveLimit = dragLeft state + dragWidth state - minWidth c;
                    yMoveLimit = dragTop state + dragHeight state - minHeight c - bodyMargin c - 1
                in Inr
                  (if ''titleBar'' \<in> set (classList element) then
                     onElement window (\<lambda>st. moveElement st xMoveDelta yMoveDelta) s
                   else if ''rightResizer'' \<in> set (classList element) then
                     onElement window (\<lambda>st. resizeElement st xResizeDelta 0) s
                   else if ''bottomResizer'' \<in> set (classList element) then
                     onElement window (\<lambda>st. resizeElement st 0 yResizeDelta) s
                   else if ''bottomRightResizer'' \<in> set (classList element) then
                     onElement window (\<lambda>st. resizeElement st xResizeDelta yResizeDelta) s
                   else if ''topRightResizer'' \<in> set (classList element) then
                     onElement window
                       (\<lambda>st. resizeElement (moveElement st 0 yMoveDelta) xResizeDelta yResizeOffset) s
                   else if ''leftResizer'' \<in> set (classList element) then
                     onElement window
                       (\<lambda>st. resizeElement (moveElement st (min xMoveDelta xMoveLimit) 0)
                                (max xResizeOffset (minWidth c)) 0) s
                   else if ''topResizer'' \<in> set (classList element) then
                     onElement window
                       (\<lambda>st. resizeElement (moveElement st 0 (min yMoveDelta yMoveLimit))
                                0 (max yResizeOffset (minHeight c))) s
                   else if ''bottomLeftResizer'' \<in> set (classList element) then
                     onElement window
                       (\<lambda>st. resizeElement (moveElement st (min xMoveDelta xMoveLimit) 0)
                                (max xResizeOffset (minWidth c)) yResizeDelta) s
                   else if ''topLeftResizer'' \<in> set (classList element) then
                     onElement window
                       (\<lambda>st. resizeElement
                                (moveElement st (min xMoveDelta xMoveLimit) (min yMoveDelta yMoveLimit))
                                (max xResizeOffset (minWidth c)) (max yResizeOffset (minHeight c))) s
                   else s))))"

definition handleMouseUp :: "event \<Rightarrow> desktop \<Rightarrow> desktop" where
  "handleMouseUp ev s = (case dragState s of Some d \<Rightarrow> s\<lparr>dragState := None\<rparr> | None \<Rightarrow> s)"

text \<open>The touch handlers call the mouse handlers with \<^verbatim>\<open>preventDefault = false\<close>.\<close>

definition handleTouchStart :: "env \<Rightarrow> event \<Rightarrow> desktop \<Rightarrow> (error \<times> desktop) + desktop" where
  "handleTouchStart c ev s = handleMouseDown c ev s"

definition handleTouchMove :: "env \<Rightarrow> event \<Rightarrow> desktop \<Rightarrow> (error \<times> desktop) + desktop" where
  "handleTouchMove c ev s = handleMouseMove c ev s"

definition handleTouchEnd :: "event \<Rightarrow> desktop \<Rightarrow> desktop" where
  "handleTouchEnd ev s = handleMouseUp ev s"

section \<open>What the Desktop component renders\<close>

definition requiredViewportWidth :: int where
  "requiredViewportWidth = 800"

definition requiredViewportHeight :: int where
  "requiredViewportHeight = 600"

text \<open>
  \<^verbatim>\<open>props.children\<close> is \<^verbatim>\<open>undefined\<close> without a child, the element itself with
  one child, and an array with several; the entries are React elements (the windows).
\<close>

datatype 'a children = NoChildren | OnlyChild 'a | Children "'a list"

text \<open>
  The tree the component returns: either the desktop surface, with the six pointer
  handlers attached and the children inside, or the BlueScreen element with its two props.
\<close>

datatype 'a rendered =
    DesktopSurface "'a children"
  | BlueScreen (errorCode: string) (cause: string)

text \<open>
  A ref object made by \<^verbatim>\<open>useRef\<close>, with its \<^verbatim>\<open>current\<close> value. A mounted Desktop is
  the tree on screen and its two refs: \<^verbatim>\<open>desktopRef\<close>, whose value tells whether the
  surface element is attached to it (\<open>False\<close> is \<^verbatim>\<open>null\<close>), and \<^verbatim>\<open>dragState\<close>.
\<close>

datatype 'v ref = Ref (current: 'v)

record 'a mounted =
  shown :: "'a rendered"
  desktopRef :: "bool ref"
  dragStateRef :: "drag option ref"

text \<open>
  The hooks run before the viewport test, on both branches: \<^verbatim>\<open>useViewport\<close> (its
  answer is the parameters \<open>width\<close> and \<open>height\<close>), the two \<^verbatim>\<open>useRef(null)\<close> and
  \<^verbatim>\<open>useEffect\<close>. The effect runs once the tree is on screen; it calls
  \<^verbatim>\<open>children.map\<close> and drops the result, so with an array it changes nothing, and
  with one child or none it throws and the tree is taken down.
\<close>

definition Desktop :: "'a children \<Rightarrow> int \<Rightarrow> int \<Rightarrow> error + 'a mounted" where
  "Desktop children width height =
     (let dragState = Ref None;
          engaged = (width \<ge> requiredViewportWidth \<and> height \<ge> requiredViewportHeight);
          tree =
            (if engaged
             then DesktopSurface children
             else BlueScreen ''0x1A (INVALID_SCREEN_SIZE)''
                    (''The system requires a screen resolution of at least ''
                     @ numberToString requiredViewportWidth @ ''x''
                     @ numberToString requiredViewportHeight
                     @ ''. Current resolution is ''
                     @ numberToString width @ ''x'' @ numberToString height @ ''.''))
      in case children of
           Children cs \<Rightarrow> Inr \<lparr>shown = tree, desktopRef = Ref engaged, dragStateRef = dragState\<rparr>
         | OnlyChild c \<Rightarrow> Inl TypeError
         | NoChildren \<Rightarrow> Inl TypeError)"

section \<open>The specification's vocabulary\<close>

text \<open>
  The nine handle kinds of the specification and the class that marks each in Window.js.
\<close>

datatype handleKind =
  Move | ResizeN | ResizeS | ResizeE | ResizeW | ResizeNE | ResizeNW | ResizeSE | ResizeSW

fun handleClass :: "handleKind \<Rightarrow> string" where
  "handleClass Move = ''titleBar''"
| "handleClass ResizeN = ''topResizer''"
| "handleClass ResizeS = ''bottomResizer''"
| "handleClass ResizeE = ''rightResizer''"
| "handleClass ResizeW = ''leftResizer''"
| "handleClass ResizeNE = ''topRightResizer''"
| "handleClass ResizeNW = ''topLeftResizer''"
| "handleClass ResizeSE = ''bottomRightResizer''"
| "handleClass ResizeSW = ''bottomLeftResizer''"

definition allKinds :: "handleKind list" where
  "allKinds = [Move, ResizeN, ResizeS, ResizeE, ResizeW, ResizeNE, ResizeNW, ResizeSE, ResizeSW]"

text \<open>An element is a handle of kind \<open>k\<close> when the marker of \<open>k\<close> is its only marker.\<close>

definition isHandle :: "handleKind \<Rightarrow> element \<Rightarrow> bool" where
  "isHandle k e = list_all (\<lambda>k'. (handleClass k' \<in> set (classList e)) = (k' = k)) allKinds"

text \<open>
  The table of section 4.5 of the specification, in the specification's words: one row
  per handle kind, the columns left, top, width and height in this order, \<open>None\<close> for a
  dash. The start rectangle and the anchor are those of the drag session.
\<close>

definition specTable ::
  "env \<Rightarrow> drag \<Rightarrow> int \<Rightarrow> int \<Rightarrow> handleKind \<Rightarrow> int option \<times> int option \<times> int option \<times> int option"
where
  "specTable c d x y k =
     (let dxMove = dragLeft d + x - dragX d;
          dxResize = dragWidth d + x - dragX d;
          dyMove = dragTop d + y - dragY d;
          dyResize = dragHeight d + y - dragY d;
          dxResizeOffset = dragWidth d - x + dragX d;
          dyResizeOffset = dragHeight d - y + dragY d;
          xMoveLimit = dragLeft d + dragWidth d - minWidth c;
          yMoveLimit = dragTop d + dragHeight d - minHeight c - bodyMargin c - 1
      in case k of
           Move \<Rightarrow> (Some dxMove, Some dyMove, None, None)
         | ResizeE \<Rightarrow> (None, None, Some dxResize, None)
         | ResizeS \<Rightarrow> (None, None, None, Some dyResize)
         | ResizeSE \<Rightarrow> (None, None, Some dxResize, Some dyResize)
         | ResizeNE \<Rightarrow> (None, Some dyMove, Some dxResize, Some dyResizeOffset)
         | ResizeW \<Rightarrow> (Some (min dxMove xMoveLimit), None, Some (max dxResizeOffset (minWidth c)), None)
         | ResizeN \<Rightarrow> (None, Some (min dyMove yMoveLimit), None, Some (max dyResizeOffset (minHeight c)))
         | ResizeSW \<Rightarrow>
             (Some (min dxMove xMoveLimit), None, Some (max dxResizeOffset (minWidth c)), Some dyResize)
         | ResizeNW \<Rightarrow>
             (Some (min dxMove xMoveLimit), Some (min dyMove yMoveLimit),
              Some (max dxResizeOffset (minWidth c)), Some (max dyResizeOffset (minHeight c))))"

text \<open>
  The z-order invariant of the specification: the zIndex values of the windows of the
  collection are exactly \<open>0, ..., N - 1\<close>, with no gaps and no duplicates.
\<close>

definition zValues :: "desktop \<Rightarrow> int option list" where
  "zValues s = map (\<lambda>w. zIndex (styles s w)) (visibleWindows s)"

definition zOrderInvariant :: "desktop \<Rightarrow> bool" where
  "zOrderInvariant s =
     (distinct (zValues s) \<and>
      set (zValues s) = set (map (\<lambda>i. Some (int i)) [0 ..< length (visibleWindows s)]))"

text \<open>
  Promotion in the specification's words, on zIndex values: with \<open>n\<close> mounted windows
  and the target at \<open>cutoff\<close>, the target goes to \<open>max (n - 1) 0\<close>, a value above the
  cutoff goes down by one, a value below it stays.
\<close>

definition specPromote :: "int \<Rightarrow> int \<Rightarrow> int \<Rightarrow> int" where
  "specPromote n c i = (if i = c then max (n - 1) 0 else if c < i then i - 1 else i)"

section \<open>Concrete desktops for the examples\<close>

text \<open>
  \<open>stateOf\<close> is the state after a handler, returned or thrown; \<open>returned\<close> tells the two
  apart. The example desktops hold windows at the nodes \<open>0, 1, ...\<close>; the example layout
  answers \<^verbatim>\<open>getBoundingClientRect\<close> with the inline rectangle (a desktop surface at the
  origin of the viewport), and the example constants are \<open>minWidth = minHeight = 50\<close>,
  as in the west-resize example of the specification, and \<open>bodyMargin = 4\<close>.
\<close>

definition stateOf :: "(error \<times> desktop) + desktop \<Rightarrow> desktop" where
  "stateOf r = (case r of Inl (err, s) \<Rightarrow> s | Inr s \<Rightarrow> s)"

definition returned :: "(error \<times> desktop) + desktop \<Rightarrow> bool" where
  "returned r = (case r of Inl err \<Rightarrow> False | Inr s \<Rightarrow> True)"

definition blankStyles :: "nat \<Rightarrow> style" where
  "blankStyles n = \<lparr>styleTop = 0, styleLeft = 0, styleWidth = 0, styleHeight = 0, zIndex = None\<rparr>"

definition inlineLayout :: "(nat \<Rightarrow> style) \<Rightarrow> nat \<Rightarrow> rect" where
  "inlineLayout sty n =
     \<lparr>rectTop = styleTop (sty n), rectLeft = styleLeft (sty n),
      rectWidth = styleWidth (sty n), rectHeight = styleHeight (sty n)\<rparr>"

definition exampleEnv :: env where
  "exampleEnv = \<lparr>minWidth = 50, minHeight = 50, bodyMargin = 4, getBoundingClientRect = inlineLayout\<rparr>"

definition oneWindow :: "style \<Rightarrow> drag option \<Rightarrow> desktop" where
  "oneWindow st d =
     \<lparr>styles = blankStyles(0 := st), visibleWindows = [0], dragState = d, activeElement = None\<rparr>"

definition stackedStyles :: "int list \<Rightarrow> nat \<Rightarrow> style" where
  "stackedStyles zs n =
     \<lparr>styleTop = 0, styleLeft = 0, styleWidth = 0, styleHeight = 0,
      zIndex = (if n < length zs then Some (zs ! n) else None)\<rparr>"

definition stackedDesktop :: "int list \<Rightarrow> desktop" where
  "stackedDesktop zs =
     \<lparr>styles = stackedStyles zs, visibleWindows = [0 ..< length zs], dragState = None,
      activeElement = None\<rparr>"

definition pointerEvent :: "string \<Rightarrow> int \<Rightarrow> int \<Rightarrow> element option \<Rightarrow> event" where
  "pointerEvent ty x y el = \<lparr>eventType = ty, clientX = x, clientY = y, touches = [], target = el\<rparr>"

definition handleOf :: "handleKind \<Rightarrow> nat \<Rightarrow> element" where
  "handleOf k w = \<lparr>classList = [handleClass k], parentNode = Some w\<rparr>"

definition bodyOf :: "nat \<Rightarrow> element" where
  "bodyOf w = \<lparr>classList = [''body''], parentNode = Some w\<rparr>"

text \<open>
  What the guarded assignment \<^verbatim>\<open>if (v) field = v\<close> leaves in a field that held
  \<open>old\<close>, for an entry of the table: a dash and a zero both keep the old value.
\<close>

definition writeField :: "int option \<Rightarrow> int \<Rightarrow> int" where
  "writeField entry old = (case entry of None \<Rightarrow> old | Some v \<Rightarrow> if v = 0 then old else v)"

text \<open>
  The same for a width or a height, which the style takes only if it is not negative: a
  dash, a zero and a negative value all keep the old value.
\<close>

definition writeSize :: "int option \<Rightarrow> int \<Rightarrow> int" where
  "writeSize entry old = (case entry of None \<Rightarrow> old | Some v \<Rightarrow> if v \<le> 0 then old else v)"

section \<open>Geometry: the handlers against the table\<close>

lemma isHandle_cases:
  "isHandle k e \<Longrightarrow>
     (''titleBar'' \<in> set (classList e)) = (k = Move) \<and>
     (''topResizer'' \<in> set (classList e)) = (k = ResizeN) \<and>
     (''bottomResizer'' \<in> set (classList e)) = (k = ResizeS) \<and>
     (''rightResizer'' \<in> set (classList e)) = (k = ResizeE) \<and>
     (''leftResizer'' \<in> set (classList e)) = (k = ResizeW) \<and>
     (''topRightResizer'' \<in> set (classList e)) = (k = ResizeNE) \<and>
     (''topLeftResizer'' \<in> set (classList e)) = (k = ResizeNW) \<and>
     (''bottomRightResizer'' \<in> set (classList e)) = (k = ResizeSE) \<and>
     (''bottomLeftResizer'' \<in> set (classList e)) = (k = ResizeSW)"
  by (simp add: isHandle_def allKinds_def eq_commute)

lemma moveElement_fields:
  "moveElement st a b = st\<lparr>styleLeft := writeField (Some a) (styleLeft st), styleTop := writeField (Some b) (styleTop st)\<rparr>"
  by (simp add: moveElement_def writeField_def)

lemma resizeElement_fields:
  "resizeElement st a b = st\<lparr>styleWidth := writeSize (Some a) (styleWidth st), styleHeight := writeSize (Some b) (styleHeight st)\<rparr>"
  by (simp add: resizeElement_def assignWidth_def assignHeight_def writeSize_def)

lemma writeField_simps:
  "writeField None old = old" "writeField (Some 0) old = old"
  "writeSize None old = old" "writeSize (Some 0) old = old"
  by (simp_all add: writeField_def writeSize_def)

lemma handleMouseMove_table:
  assumes "dragState s = Some d" and "isHandle k (dragElement d)"
    and "parentNode (dragElement d) = Some w" and "getEventPosition ev = Inr (x, y)"
    and "specTable c d x y k = (l, t, wd, h)"
  shows "handleMouseMove c ev s =
           Inr (s\<lparr>styles := (styles s)(w := (styles s w)
                  \<lparr>styleLeft := writeField l (styleLeft (styles s w)),
                   styleTop := writeField t (styleTop (styles s w)),
                   styleWidth := writeSize wd (styleWidth (styles s w)),
                   styleHeight := writeSize h (styleHeight (styles s w))\<rparr>)\<rparr>)"
proof -
  note m = isHandle_cases [OF assms(2)]
  show ?thesis
    using assms(1,3,4,5) m
    by (cases k) (auto simp: handleMouseMove_def specTable_def onElement_def moveElement_fields
        resizeElement_fields writeField_simps Let_def)
qed

text \<open>
  C1 (as amended). During a drag session with start rectangle and anchor \<open>d\<close>, on a handle
  of kind \<open>k\<close> whose window is \<open>w\<close>, a pointer-move at \<open>(x, y)\<close> returns, and the
  rectangle of the window is the one of the table of section 4.5, read as follows. A
  field that the table lists for \<open>k\<close> holds the listed value afterwards when that value
  is not 0 and, for width and height, not negative: move sets left and top to \<open>dxMove\<close>
  and \<open>dyMove\<close>, resizeE sets width to \<open>dxResize\<close>, and so on through resizeNW with its
  \<open>min\<close> and \<open>max\<close> clamps. A listed value of 0 is not written, a negative width or
  height is refused by the style, and a field the table does not list is not touched: in
  these cases the field keeps its prior value. The worked examples of section 8 (move:
  left 120, top 90, size unchanged; west resize: left 50, width 50) are the two instances
  of the witness.
\<close>

theorem handleMouseMove_writes_table:
  assumes "dragState s = Some d" and "isHandle k (dragElement d)"
    and "parentNode (dragElement d) = Some w" and "getEventPosition ev = Inr (x, y)"
    and "specTable c d x y k = (l, t, wd, h)"
  shows "\<exists>s'. handleMouseMove c ev s = Inr s' \<and>
           styleLeft (styles s' w) =
             (case l of None \<Rightarrow> styleLeft (styles s w)
              | Some v \<Rightarrow> if v = 0 then styleLeft (styles s w) else v) \<and>
           styleTop (styles s' w) =
             (case t of None \<Rightarrow> styleTop (styles s w)
              | Some v \<Rightarrow> if v = 0 then styleTop (styles s w) else v) \<and>
           styleWidth (styles s' w) =
             (case wd of None \<Rightarrow> styleWidth (styles s w)
              | Some v \<Rightarrow> if v \<le> 0 then styleWidth (styles s w) else v) \<and>
           styleHeight (styles s' w) =
             (case h of None \<Rightarrow> styleHeight (styles s w)
              | Some v \<Rightarrow> if v \<le> 0 then styleHeight (styles s w) else v)"
  unfolding handleMouseMove_table [OF assms]
  by (simp add: writeField_def writeSize_def)

theorem handleMouseMove_writes_table_witness:
  "returned (handleMouseMove exampleEnv (pointerEvent ''mousemove'' 70 40 None)
      (oneWindow \<lparr>styleTop = 100, styleLeft = 100, styleWidth = 200, styleHeight = 150, zIndex = None\<rparr>
         (Some \<lparr>dragElement = handleOf Move 0, dragX = 50, dragY = 50, dragTop = 100,
                 dragLeft = 100, dragWidth = 200, dragHeight = 150\<rparr>))) \<and>
   styleLeft (styles (stateOf (handleMouseMove exampleEnv (pointerEvent ''mousemove'' 70 40 None)
      (oneWindow \<lparr>styleTop = 100, styleLeft = 100, styleWidth = 200, styleHeight = 150, zIndex = None\<rparr>
         (Some \<lparr>dragElement = handleOf Move 0, dragX = 50, dragY = 50, dragTop = 100,
                 dragLeft = 100, dragWidth = 200, dragHeight = 150\<rparr>)))) 0) = 120 \<and>
   styleTop (styles (stateOf (handleMouseMove exampleEnv (pointerEvent ''mousemove'' 70 40 None)
      (oneWindow \<lparr>styleTop = 100, styleLeft = 100, styleWidth = 200, styleHeight = 150, zIndex = None\<rparr>
         (Some \<lparr>dragElement = handleOf Move 0, dragX = 50, dragY = 50, dragTop = 100,
                 dragLeft = 100, dragWidth = 200, dragHeight = 150\<rparr>)))) 0) = 90 \<and>
   styleWidth (styles (stateOf (handleMouseMove exampleEnv (pointerEvent ''mousemove'' 70 40 None)
      (oneWindow \<lparr>styleTop = 100, styleLeft = 100, styleWidth = 200, styleHeight = 150, zIndex = None\<rparr>
         (Some \<lparr>dragElement = handleOf Move 0, dragX = 50, dragY = 50, dragTop = 100,
                 dragLeft = 100, dragWidth = 200, dragHeight = 150\<rparr>)))) 0) = 200 \<and>
   styleHeight (styles (stateOf (handleMouseMove exampleEnv (pointerEvent ''mousemove'' 70 40 None)
      (oneWindow \<lparr>styleTop = 100, styleLeft = 100, styleWidth = 200, styleHeight = 150, zIndex = None\<rparr>
         (Some \<lparr>dragElement = handleOf Move 0, dragX = 50, dragY = 50, dragTop = 100,
                 dragLeft = 100, dragWidth = 200, dragHeight = 150\<rparr>)))) 0) = 150 \<and>
   styleLeft (styles (stateOf (handleMouseMove exampleEnv (pointerEvent ''mousemove'' 80 0 None)
      (oneWindow \<lparr>styleTop = 0, styleLeft = 0, styleWidth = 100, styleHeight = 100, zIndex = None\<rparr>
         (Some \<lparr>dragElement = handleOf ResizeW 0, dragX = 0, dragY = 0, dragTop = 0,
                 dragLeft = 0, dragWidth = 100, dragHeight = 100\<rparr>)))) 0) = 50 \<and>
   styleWidth (styles (stateOf (handleMouseMove exampleEnv (pointerEvent ''mousemove'' 80 0 None)
      (oneWindow \<lparr>styleTop = 0, styleLeft = 0, styleWidth = 100, styleHeight = 100, zIndex = None\<rparr>
         (Some \<lparr>dragElement = handleOf ResizeW 0, dragX = 0, dragY = 0, dragTop = 0,
                 dragLeft = 0, dragWidth = 100, dragHeight = 100\<rparr>)))) 0) = 50"
  using handleMouseMove_writes_table
    [where s = "oneWindow \<lparr>styleTop = 100, styleLeft = 100, styleWidth = 200, styleHeight = 150, zIndex = None\<rparr>
         (Some \<lparr>dragElement = handleOf Move 0, dragX = 50, dragY = 50, dragTop = 100,
                 dragLeft = 100, dragWidth = 200, dragHeight = 150\<rparr>)"
       and d = "\<lparr>dragElement = handleOf Move 0, dragX = 50, dragY = 50, dragTop = 100,
                 dragLeft = 100, dragWidth = 200, dragHeight = 150\<rparr>"
       and k = Move and w = 0 and x = 70 and y = 40
       and ev = "pointerEvent ''mousemove'' 70 40 None" and c = exampleEnv
       and l = "Some 120" and t = "Some 90" and wd = None and h = None]
    handleMouseMove_writes_table
    [where s = "oneWindow \<lparr>styleTop = 0, styleLeft = 0, styleWidth = 100, styleHeight = 100, zIndex = None\<rparr>
         (Some \<lparr>dragElement = handleOf ResizeW 0, dragX = 0, dragY = 0, dragTop = 0,
                 dragLeft = 0, dragWidth = 100, dragHeight = 100\<rparr>)"
       and d = "\<lparr>dragElement = handleOf ResizeW 0, dragX = 0, dragY = 0, dragTop = 0,
                 dragLeft = 0, dragWidth = 100, dragHeight = 100\<rparr>"
       and k = ResizeW and w = 0 and x = 80 and y = 0
       and ev = "pointerEvent ''mousemove'' 80 0 None" and c = exampleEnv
       and l = "Some 50" and t = None and wd = "Some 50" and h = None]
  by (auto simp add: isHandle_def allKinds_def getEventPosition_def specTable_def oneWindow_def
      handleOf_def pointerEvent_def exampleEnv_def stateOf_def returned_def)

text \<open>
  The claim as first stated fails where a listed value is 0, and where a listed width or
  height is negative. A title bar grabbed at \<open>(150, 50)\<close> with the window at left 100 and
  dragged to \<open>(50, 40)\<close> has \<open>dxMove = 100 + 50 - 150 = 0\<close>, and the left of the window
  stays 100. A right resizer grabbed at \<open>(300, 50)\<close> on a window of width 200 and dragged
  to \<open>(50, 50)\<close> has \<open>dxResize = 200 + 50 - 300 = - 50\<close>, and the width stays 200.
\<close>

theorem handleMouseMove_zero_counterexample:
  "returned (handleMouseMove exampleEnv (pointerEvent ''mousemove'' 50 40 None)
      (oneWindow \<lparr>styleTop = 100, styleLeft = 100, styleWidth = 200, styleHeight = 150, zIndex = None\<rparr>
         (Some \<lparr>dragElement = handleOf Move 0, dragX = 150, dragY = 50, dragTop = 100,
                 dragLeft = 100, dragWidth = 200, dragHeight = 150\<rparr>))) \<and>
   styleLeft (styles (stateOf (handleMouseMove exampleEnv (pointerEvent ''mousemove'' 50 40 None)
      (oneWindow \<lparr>styleTop = 100, styleLeft = 100, styleWidth = 200, styleHeight = 150, zIndex = None\<rparr>
         (Some \<lparr>dragElement = handleOf Move 0, dragX = 150, dragY = 50, dragTop = 100,
                 dragLeft = 100, dragWidth = 200, dragHeight = 150\<rparr>)))) 0) = 100 \<and>
   styleLeft (styles (stateOf (handleMouseMove exampleEnv (pointerEvent ''mousemove'' 50 40 None)
      (oneWindow \<lparr>styleTop = 100, styleLeft = 100, styleWidth = 200, styleHeight = 150, zIndex = None\<rparr>
         (Some \<lparr>dragElement = handleOf Move 0, dragX = 150, dragY = 50, dragTop = 100,
                 dragLeft = 100, dragWidth = 200, dragHeight = 150\<rparr>)))) 0) \<noteq> 100 + 50 - 150 \<and>
   returned (handleMouseMove exampleEnv (pointerEvent ''mousemove'' 50 50 None)
      (oneWindow \<lparr>styleTop = 100, styleLeft = 100, styleWidth = 200, styleHeight = 150, zIndex = None\<rparr>
         (Some \<lparr>dragElement = handleOf ResizeE 0, dragX = 300, dragY = 50, dragTop = 100,
                 dragLeft = 100, dragWidth = 200, dragHeight = 150\<rparr>))) \<and>
   styleWidth (styles (stateOf (handleMouseMove exampleEnv (pointerEvent ''mousemove'' 50 50 None)
      (oneWindow \<lparr>styleTop = 100, styleLeft = 100, styleWidth = 200, styleHeight = 150, zIndex = None\<rparr>
         (Some \<lparr>dragElement = handleOf ResizeE 0, dragX = 300, dragY = 50, dragTop = 100,
                 dragLeft = 100, dragWidth = 200, dragHeight = 150\<rparr>)))) 0) = 200 \<and>
   styleWidth (styles (stateOf (handleMouseMove exampleEnv (pointerEvent ''mousemove'' 50 50 None)
      (oneWindow \<lparr>styleTop = 100, styleLeft = 100, styleWidth = 200, styleHeight = 150, zIndex = None\<rparr>
         (Some \<lparr>dragElement = handleOf ResizeE 0, dragX = 300, dragY = 50, dragTop = 100,
                 dragLeft = 100, dragWidth = 200, dragHeight = 150\<rparr>)))) 0) \<noteq> 200 + 50 - 300"
  by (simp add: handleMouseMove_def getEventPosition_def onElement_def moveElement_def
      resizeElement_def assignWidth_def assignHeight_def
      oneWindow_def handleOf_def pointerEvent_def exampleEnv_def stateOf_def returned_def)

text \<open>
  C6. On a pointer-move on a handle of kind \<open>k\<close>, a field of the window's rectangle that
  the table does not list for \<open>k\<close> keeps its prior value, and so does a listed field whose
  computed value is exactly 0. The zIndex of the window, every other node, the window
  collection, the session and the focus are untouched.
\<close>

theorem handleMouseMove_frame:
  assumes "dragState s = Some d" and "isHandle k (dragElement d)"
    and "parentNode (dragElement d) = Some w" and "getEventPosition ev = Inr (x, y)"
    and "specTable c d x y k = (l, t, wd, h)"
  shows "\<exists>s'. handleMouseMove c ev s = Inr s' \<and>
           (l = None \<or> l = Some 0 \<longrightarrow> styleLeft (styles s' w) = styleLeft (styles s w)) \<and>
           (t = None \<or> t = Some 0 \<longrightarrow> styleTop (styles s' w) = styleTop (styles s w)) \<and>
           (wd = None \<or> wd = Some 0 \<longrightarrow> styleWidth (styles s' w) = styleWidth (styles s w)) \<and>
           (h = None \<or> h = Some 0 \<longrightarrow> styleHeight (styles s' w) = styleHeight (styles s w)) \<and>
           zIndex (styles s' w) = zIndex (styles s w) \<and>
           (\<forall>n. n \<noteq> w \<longrightarrow> styles s' n = styles s n) \<and>
           visibleWindows s' = visibleWindows s \<and>
           dragState s' = dragState s \<and>
           activeElement s' = activeElement s"
  unfolding handleMouseMove_table [OF assms]
  by (auto simp: writeField_simps)

text \<open>
  The east-resize example of section 8 (everything but the width unchanged), and a move
  whose \<open>dxMove\<close> is 0 (left unchanged).
\<close>

theorem handleMouseMove_frame_witness:
  "styleLeft (styles (stateOf (handleMouseMove exampleEnv (pointerEvent ''mousemove'' 70 50 None)
      (oneWindow \<lparr>styleTop = 100, styleLeft = 100, styleWidth = 200, styleHeight = 150, zIndex = Some 0\<rparr>
         (Some \<lparr>dragElement = handleOf ResizeE 0, dragX = 50, dragY = 50, dragTop = 100,
                 dragLeft = 100, dragWidth = 200, dragHeight = 150\<rparr>)))) 0) = 100 \<and>
   styleTop (styles (stateOf (handleMouseMove exampleEnv (pointerEvent ''mousemove'' 70 50 None)
      (oneWindow \<lparr>styleTop = 100, styleLeft = 100, styleWidth = 200, styleHeight = 150, zIndex = Some 0\<rparr>
         (Some \<lparr>dragElement = handleOf ResizeE 0, dragX = 50, dragY = 50, dragTop = 100,
                 dragLeft = 100, dragWidth = 200, dragHeight = 150\<rparr>)))) 0) = 100 \<and>
   styleHeight (styles (stateOf (handleMouseMove exampleEnv (pointerEvent ''mousemove'' 70 50 None)
      (oneWindow \<lparr>styleTop = 100, styleLeft = 100, styleWidth = 200, styleHeight = 150, zIndex = Some 0\<rparr>
         (Some \<lparr>dragElement = handleOf ResizeE 0, dragX = 50, dragY = 50, dragTop = 100,
                 dragLeft = 100, dragWidth = 200, dragHeight = 150\<rparr>)))) 0) = 150 \<and>
   styleLeft (styles (stateOf (handleMouseMove exampleEnv (pointerEvent ''mousemove'' 50 40 None)
      (oneWindow \<lparr>styleTop = 100, styleLeft = 100, styleWidth = 200, styleHeight = 150, zIndex = Some 0\<rparr>
         (Some \<lparr>dragElement = handleOf Move 0, dragX = 150, dragY = 50, dragTop = 100,
                 dragLeft = 100, dragWidth = 200, dragHeight = 150\<rparr>)))) 0) = 100"
  using handleMouseMove_frame
    [where s = "oneWindow \<lparr>styleTop = 100, styleLeft = 100, styleWidth = 200, styleHeight = 150, zIndex = Some 0\<rparr>
         (Some \<lparr>dragElement = handleOf ResizeE 0, dragX = 50, dragY = 50, dragTop = 100,
                 dragLeft = 100, dragWidth = 200, dragHeight = 150\<rparr>)"
       and d = "\<lparr>dragElement = handleOf ResizeE 0, dragX = 50, dragY = 50, dragTop = 100,
                 dragLeft = 100, dragWidth = 200, dragHeight = 150\<rparr>"
       and k = ResizeE and w = 0 and x = 70 and y = 50
       and ev = "pointerEvent ''mousemove'' 70 50 None" and c = exampleEnv
       and l = None and t = None and wd = "Some 220" and h = None]
    handleMouseMove_frame
    [where s = "oneWindow \<lparr>styleTop = 100, styleLeft = 100, styleWidth = 200, styleHeight = 150, zIndex = Some 0\<rparr>
         (Some \<lparr>dragElement = handleOf Move 0, dragX = 150, dragY = 50, dragTop = 100,
                 dragLeft = 100, dragWidth = 200, dragHeight = 150\<rparr>)"
       and d = "\<lparr>dragElement = handleOf Move 0, dragX = 150, dragY = 50, dragTop = 100,
                 dragLeft = 100, dragWidth = 200, dragHeight = 150\<rparr>"
       and k = Move and w = 0 and x = 50 and y = 40
       and ev = "pointerEvent ''mousemove'' 50 40 None" and c = exampleEnv
       and l = "Some 0" and t = "Some 90" and wd = None and h = None]
  by (auto simp add: isHandle_def allKinds_def getEventPosition_def specTable_def oneWindow_def
      handleOf_def pointerEvent_def exampleEnv_def stateOf_def)

text \<open>
  C4 (as amended). No pointer-move, on any handle kind, leaves a negative width or height
  in the style of the window. On the near edges this is the work of the clamps: a width
  written by resizeW, resizeSW or resizeNW is at least \<open>minWidth\<close>, and a height written
  by resizeN or resizeNW is at least \<open>minHeight\<close>, by \<open>max\<close> applied before the write
  (move writes neither, resizeS no width, resizeE no height). Stated on the result: after
  the pointer-move the field is what it was or is at least the minimum. The far edges
  have no floor: any positive value is written, and a negative one is refused by the
  style.
\<close>

theorem handleMouseMove_near_edge_floor:
  assumes "dragState s = Some d" and "isHandle k (dragElement d)"
    and "parentNode (dragElement d) = Some w" and "getEventPosition ev = Inr (x, y)"
  shows "\<exists>s'. handleMouseMove c ev s = Inr s' \<and>
           (k \<notin> {ResizeE, ResizeSE, ResizeNE} \<longrightarrow>
              styleWidth (styles s' w) = styleWidth (styles s w) \<or>
              minWidth c \<le> styleWidth (styles s' w)) \<and>
           (k \<notin> {ResizeS, ResizeSE, ResizeSW, ResizeNE} \<longrightarrow>
              styleHeight (styles s' w) = styleHeight (styles s w) \<or>
              minHeight c \<le> styleHeight (styles s' w)) \<and>
           (0 \<le> styleWidth (styles s w) \<longrightarrow> 0 \<le> styleWidth (styles s' w)) \<and>
           (0 \<le> styleHeight (styles s w) \<longrightarrow> 0 \<le> styleHeight (styles s' w))"
proof -
  obtain l t wd h where tab: "specTable c d x y k = (l, t, wd, h)"
    by (cases "specTable c d x y k") auto
  have wd: "k \<notin> {ResizeE, ResizeSE, ResizeNE} \<Longrightarrow>
      wd = None \<or> (\<exists>v. wd = Some v \<and> minWidth c \<le> v)"
    using tab by (cases k) (auto simp: specTable_def Let_def)
  have h: "k \<notin> {ResizeS, ResizeSE, ResizeSW, ResizeNE} \<Longrightarrow>
      h = None \<or> (\<exists>v. h = Some v \<and> minHeight c \<le> v)"
    using tab by (cases k) (auto simp: specTable_def Let_def)
  have nonneg: "0 \<le> old \<Longrightarrow> 0 \<le> writeSize e old" for e old
    by (simp add: writeSize_def split: option.splits)
  show ?thesis
    unfolding handleMouseMove_table [OF assms tab]
    using wd h nonneg [of "styleWidth (styles s w)" wd] nonneg [of "styleHeight (styles s w)" h]
    by (auto simp: writeSize_def)
qed

theorem handleMouseMove_near_edge_floor_witness:
  "styleWidth (styles (stateOf (handleMouseMove exampleEnv (pointerEvent ''mousemove'' 80 0 None)
      (oneWindow \<lparr>styleTop = 0, styleLeft = 0, styleWidth = 100, styleHeight = 100, zIndex = None\<rparr>
         (Some \<lparr>dragElement = handleOf ResizeW 0, dragX = 0, dragY = 0, dragTop = 0,
                 dragLeft = 0, dragWidth = 100, dragHeight = 100\<rparr>)))) 0) \<ge> 50 \<and>
   styleHeight (styles (stateOf (handleMouseMove exampleEnv (pointerEvent ''mousemove'' 80 0 None)
      (oneWindow \<lparr>styleTop = 0, styleLeft = 0, styleWidth = 100, styleHeight = 100, zIndex = None\<rparr>
         (Some \<lparr>dragElement = handleOf ResizeW 0, dragX = 0, dragY = 0, dragTop = 0,
                 dragLeft = 0, dragWidth = 100, dragHeight = 100\<rparr>)))) 0) \<ge> 0"
  using handleMouseMove_near_edge_floor
    [where s = "oneWindow \<lparr>styleTop = 0, styleLeft = 0, styleWidth = 100, styleHeight = 100, zIndex = None\<rparr>
         (Some \<lparr>dragElement = handleOf ResizeW 0, dragX = 0, dragY = 0, dragTop = 0,
                 dragLeft = 0, dragWidth = 100, dragHeight = 100\<rparr>)"
       and d = "\<lparr>dragElement = handleOf ResizeW 0, dragX = 0, dragY = 0, dragTop = 0,
                 dragLeft = 0, dragWidth = 100, dragHeight = 100\<rparr>"
       and k = ResizeW and w = 0 and x = 80 and y = 0
       and ev = "pointerEvent ''mousemove'' 80 0 None" and c = exampleEnv]
  by (auto simp add: isHandle_def allKinds_def getEventPosition_def oneWindow_def
      handleOf_def pointerEvent_def exampleEnv_def stateOf_def)

text \<open>
  The claim as first stated, for every handle kind, fails on the far edges, where no clamp
  is applied: with \<open>minWidth = 50\<close>, an east resize of a window of width 200, grabbed at
  \<open>x = 300\<close> and dragged to \<open>x = 120\<close>, writes the width \<open>200 + 120 - 300 = 20\<close>, below
  the minimum that the data model of the specification requires of a width.
\<close>

theorem handleMouseMove_far_edge_counterexample:
  "returned (handleMouseMove exampleEnv (pointerEvent ''mousemove'' 120 50 None)
      (oneWindow \<lparr>styleTop = 100, styleLeft = 100, styleWidth = 200, styleHeight = 150, zIndex = None\<rparr>
         (Some \<lparr>dragElement = handleOf ResizeE 0, dragX = 300, dragY = 50, dragTop = 100,
                 dragLeft = 100, dragWidth = 200, dragHeight = 150\<rparr>))) \<and>
   styleWidth (styles (stateOf (handleMouseMove exampleEnv (pointerEvent ''mousemove'' 120 50 None)
      (oneWindow \<lparr>styleTop = 100, styleLeft = 100, styleWidth = 200, styleHeight = 150, zIndex = None\<rparr>
         (Some \<lparr>dragElement = handleOf ResizeE 0, dragX = 300, dragY = 50, dragTop = 100,
                 dragLeft = 100, dragWidth = 200, dragHeight = 150\<rparr>)))) 0) = 20 \<and>
   styleWidth (styles (stateOf (handleMouseMove exampleEnv (pointerEvent ''mousemove'' 120 50 None)
      (oneWindow \<lparr>styleTop = 100, styleLeft = 100, styleWidth = 200, styleHeight = 150, zIndex = None\<rparr>
         (Some \<lparr>dragElement = handleOf ResizeE 0, dragX = 300, dragY = 50, dragTop = 100,
                 dragLeft = 100, dragWidth = 200, dragHeight = 150\<rparr>)))) 0) < minWidth exampleEnv"
  by (simp add: handleMouseMove_def getEventPosition_def onElement_def resizeElement_def
      assignWidth_def assignHeight_def
      oneWindow_def handleOf_def pointerEvent_def exampleEnv_def stateOf_def returned_def)

section \<open>Focus stack\<close>

text \<open>
  The loop compares \<^verbatim>\<open>style.zIndex\<close> strings. On one-digit values the order of the
  strings is the order of the numbers; from \<^verbatim>\<open>"10"\<close> on it is not
  (\<^verbatim>\<open>"10" > "2"\<close> is false, \<^verbatim>\<open>"2" > "10"\<close> is true).
\<close>

lemma foldl_lowerWindow:
  "distinct ws \<Longrightarrow>
     foldl (lowerWindow c) sty ws n =
       (if n \<in> set ws \<and> stringGreater (zIndexString (zIndex (sty n))) (zIndexString c)
        then (sty n)\<lparr>zIndex := Some (zIndexToNumber (zIndex (sty n)) - 1)\<rparr>
        else sty n)"
proof (induction ws arbitrary: sty)
  case Nil
  then show ?case by simp
next
  case (Cons w ws)
  then show ?case by (auto simp: lowerWindow_def Let_def)
qed

lemma digit_code: "n < 10 \<Longrightarrow> of_char (''0123456789'' ! n) = (48 + n :: nat)"
proof -
  assume "n < 10"
  then have "n \<in> {0, 1, 2, 3, 4, 5, 6, 7, 8, 9}" by auto
  then show ?thesis by (elim insertE) simp_all
qed

lemma numberToString_digit:
  "0 \<le> i \<Longrightarrow> i < 10 \<Longrightarrow> numberToString i = [''0123456789'' ! nat i]"
  by (simp add: numberToString_def numberDigits.simps)

lemma stringGreater_digits:
  assumes "0 \<le> i" "i < 10" "0 \<le> j" "j < 10"
  shows "stringGreater (numberToString i) (numberToString j) = (j < i)"
proof -
  have "nat i < 10" "nat j < 10" using assms by auto
  then show ?thesis
    using assms by (auto simp: stringGreater_def numberToString_digit digit_code)
qed


lemma handleFocusChange_styles:
  assumes "target ev = Some e" and "parentNode e = Some t" and "distinct (visibleWindows s)"
  shows "\<exists>s'. handleFocusChange ev s = Inr s' \<and>
           visibleWindows s' = visibleWindows s \<and>
           dragState s' = dragState s \<and>
           (\<forall>n. styles s' n =
              (if n = t then (styles s t)\<lparr>zIndex := Some (max (int (length (visibleWindows s)) - 1) 0)\<rparr>
               else if n \<in> set (visibleWindows s) \<and>
                       stringGreater (zIndexString (zIndex (styles s n)))
                         (zIndexString (zIndex (styles s t)))
               then (styles s n)\<lparr>zIndex := Some (zIndexToNumber (zIndex (styles s n)) - 1)\<rparr>
               else styles s n))"
  using assms by (simp add: handleFocusChange_def Let_def foldl_lowerWindow)

lemma zOrderInvariant_range:
  assumes "zOrderInvariant s" and "w \<in> set (visibleWindows s)"
  shows "\<exists>i. zIndex (styles s w) = Some i \<and> 0 \<le> i \<and> i < int (length (visibleWindows s))"
proof -
  have "zIndex (styles s w) \<in> set (zValues s)"
    using assms(2) by (simp add: zValues_def)
  then have "zIndex (styles s w) \<in> set (map (\<lambda>i. Some (int i)) [0 ..< length (visibleWindows s)])"
    using assms(1) by (simp add: zOrderInvariant_def)
  then show ?thesis by auto
qed

lemma zOrderInvariant_inj:
  assumes "zOrderInvariant s"
  shows "distinct (visibleWindows s)" and "inj_on (\<lambda>w. zIndex (styles s w)) (set (visibleWindows s))"
  using assms by (simp_all add: zOrderInvariant_def zValues_def distinct_map)

lemma specPromote_inj: "0 \<le> c \<Longrightarrow> c < n \<Longrightarrow> inj_on (specPromote n c) {0 ..< n}"
  by (auto simp: inj_on_def specPromote_def split: if_splits)

lemma specPromote_range: "0 \<le> c \<Longrightarrow> c < n \<Longrightarrow> specPromote n c ` {0 ..< n} = {0 ..< n}"
proof (rule endo_inj_surj)
  show "finite {0 ..< n}" by simp
next
  assume "0 \<le> c" "c < n"
  then show "specPromote n c ` {0 ..< n} \<subseteq> {0 ..< n}"
    by (auto simp: specPromote_def)
next
  assume "0 \<le> c" "c < n"
  then show "inj_on (specPromote n c) {0 ..< n}" by (rule specPromote_inj)
qed

lemma stringGreater_two_digits:
  "\<not> stringGreater (numberToString 10) (numberToString 2)"
  "stringGreater (numberToString 2) (numberToString 10)"
  by (simp_all add: stringGreater_def numberToString_def numberDigits.simps)

text \<open>
  With at most ten windows the promotion is the specification's: it returns, every window
  of the collection gets the promoted value of its zIndex, nothing but zIndex values
  changes, and the invariant is kept.
\<close>

lemma handleFocusChange_small:
  assumes inv: "zOrderInvariant s" and small: "length (visibleWindows s) \<le> 10"
    and ev: "target ev = Some e" "parentNode e = Some t"
    and t: "t \<in> set (visibleWindows s)"
  shows "\<exists>s' c. handleFocusChange ev s = Inr s' \<and>
           zIndex (styles s t) = Some c \<and>
           visibleWindows s' = visibleWindows s \<and>
           (\<forall>w \<in> set (visibleWindows s).
              zIndex (styles s' w) =
                map_option (specPromote (int (length (visibleWindows s))) c) (zIndex (styles s w))) \<and>
           (\<forall>n. n \<notin> set (visibleWindows s) \<longrightarrow> styles s' n = styles s n) \<and>
           (\<forall>n. styles s' n = (styles s n)\<lparr>zIndex := zIndex (styles s' n)\<rparr>) \<and>
           zOrderInvariant s'"
proof -
  let ?ws = "visibleWindows s"
  let ?n = "int (length ?ws)"
  let ?z = "\<lambda>w. zIndex (styles s w)"
  note dist = zOrderInvariant_inj(1) [OF inv]
  note inj = zOrderInvariant_inj(2) [OF inv]
  obtain c where c: "?z t = Some c" "0 \<le> c" "c < ?n"
    using zOrderInvariant_range [OF inv t] by blast
  obtain s' where s': "handleFocusChange ev s = Inr s'"
      "visibleWindows s' = ?ws"
      "\<And>n. styles s' n =
              (if n = t then (styles s t)\<lparr>zIndex := Some (max (?n - 1) 0)\<rparr>
               else if n \<in> set ?ws \<and>
                       stringGreater (zIndexString (?z n)) (zIndexString (?z t))
               then (styles s n)\<lparr>zIndex := Some (zIndexToNumber (?z n) - 1)\<rparr>
               else styles s n)"
    using handleFocusChange_styles [OF ev dist] by blast
  have pointwise: "zIndex (styles s' w) = map_option (specPromote ?n c) (?z w)"
    if w: "w \<in> set ?ws" for w
  proof -
    obtain i where i: "?z w = Some i" "0 \<le> i" "i < ?n"
      using zOrderInvariant_range [OF inv w] by blast
    have gt: "stringGreater (zIndexString (?z w)) (zIndexString (?z t)) = (c < i)"
      using i c small by (simp add: zIndexString_def stringGreater_digits)
    show ?thesis
    proof (cases "w = t")
      case True
      then show ?thesis using c i s'(3) [of w] by (simp add: specPromote_def)
    next
      case False
      then have "i \<noteq> c"
        using inj w t i c by (auto simp: inj_on_def)
      then show ?thesis
        using False w i gt s'(3) [of w] by (simp add: specPromote_def zIndexToNumber_def)
    qed
  qed
  have outside: "styles s' n = styles s n" if "n \<notin> set ?ws" for n
    using that t s'(3) [of n] by auto
  have only_z: "styles s' n = (styles s n)\<lparr>zIndex := zIndex (styles s' n)\<rparr>" for n
    using s'(3) [of n] by auto
  have vals: "zValues s' = map (map_option (specPromote ?n c)) (zValues s)"
    using pointwise by (simp add: zValues_def s'(2))
  have setz: "set (zValues s) = Some ` {0 ..< ?n}"
  proof -
    have "set (zValues s) = (\<lambda>i. Some (int i)) ` {0 ..< length ?ws}"
      using inv by (simp add: zOrderInvariant_def)
    also have "\<dots> = Some ` (int ` {0 ..< length ?ws})"
      by (simp add: image_image)
    also have "int ` {0 ..< length ?ws} = {0 ..< ?n}"
      by (simp add: image_int_atLeastLessThan)
    finally show ?thesis .
  qed
  have "inj_on (map_option (specPromote ?n c)) (set (zValues s))"
    unfolding setz using specPromote_inj [OF c(2,3)] by (auto simp: inj_on_def)
  then have d: "distinct (zValues s')"
    using inv by (simp add: vals distinct_map zOrderInvariant_def)
  have "set (zValues s') = map_option (specPromote ?n c) ` (Some ` {0 ..< ?n})"
    by (simp add: vals setz)
  also have "\<dots> = Some ` (specPromote ?n c ` {0 ..< ?n})"
    by (simp add: image_image)
  also have "\<dots> = Some ` {0 ..< ?n}"
    by (simp add: specPromote_range [OF c(2,3)])
  finally have "set (zValues s') = set (zValues s)"
    by (simp add: setz)
  then have "zOrderInvariant s'"
    using d inv by (simp add: zOrderInvariant_def s'(2))
  then show ?thesis
    using s'(1,2) c(1) pointwise outside only_z by blast
qed

lemma handleFocusChange_small_topmost:
  assumes inv: "zOrderInvariant s" and small: "length (visibleWindows s) \<le> 10"
    and ev: "target ev = Some e" "parentNode e = Some t"
    and t: "t \<in> set (visibleWindows s)"
    and top: "zIndex (styles s t) = Some (int (length (visibleWindows s)) - 1)"
  shows "\<exists>s'. handleFocusChange ev s = Inr s' \<and> styles s' = styles s"
proof -
  obtain s' c where s': "handleFocusChange ev s = Inr s'" "zIndex (styles s t) = Some c"
      "\<forall>w \<in> set (visibleWindows s).
         zIndex (styles s' w) =
           map_option (specPromote (int (length (visibleWindows s))) c) (zIndex (styles s w))"
      "\<forall>n. n \<notin> set (visibleWindows s) \<longrightarrow> styles s' n = styles s n"
      "\<forall>n. styles s' n = (styles s n)\<lparr>zIndex := zIndex (styles s' n)\<rparr>"
    using handleFocusChange_small [OF inv small ev t] by blast
  have c: "c = int (length (visibleWindows s)) - 1"
    using s'(2) top by simp
  have "styles s' n = styles s n" for n
  proof (cases "n \<in> set (visibleWindows s)")
    case True
    obtain i where i: "zIndex (styles s n) = Some i" "0 \<le> i" "i < int (length (visibleWindows s))"
      using zOrderInvariant_range [OF inv True] by blast
    have "zIndex (styles s' n) = zIndex (styles s n)"
      using s'(3) True i c by (auto simp: specPromote_def)
    then show ?thesis
      using s'(5) by (metis style.surjective style.update_convs(5))
  next
    case False
    then show ?thesis using s'(4) by simp
  qed
  then show ?thesis using s'(1) by auto
qed

text \<open>The promotion example of section 8: A(0), B(1), C(2), promote A.\<close>

lemma handleFocusChange_example:
  "zValues (stateOf (handleFocusChange (pointerEvent ''mousedown'' 0 0 (Some (handleOf Move 0)))
      (stackedDesktop [0, 1, 2]))) = [Some 2, Some 0, Some 1]"
  by code_simp

text \<open>
  C2, on the code. Eleven windows hold the zIndex values 0 to 10, window \<open>i\<close> the value
  \<open>i\<close>, and the invariant holds. Promoting the window at 2 lowers the windows at 3 to 9,
  leaves the window at 10 where it is and puts the target at 10 as well: two windows at
  10, none at 9, and the invariant is lost.
\<close>

theorem handleFocusChange_eleven_invariant:
  "zOrderInvariant (stackedDesktop [0, 1, 2, 3, 4, 5, 6, 7, 8, 9, 10]) \<and>
   returned (handleFocusChange (pointerEvent ''mousedown'' 0 0 (Some (bodyOf 2)))
      (stackedDesktop [0, 1, 2, 3, 4, 5, 6, 7, 8, 9, 10])) \<and>
   zValues (stateOf (handleFocusChange (pointerEvent ''mousedown'' 0 0 (Some (bodyOf 2)))
      (stackedDesktop [0, 1, 2, 3, 4, 5, 6, 7, 8, 9, 10])))
     = [Some 0, Some 1, Some 10, Some 2, Some 3, Some 4, Some 5, Some 6, Some 7, Some 8, Some 10] \<and>
   \<not> zOrderInvariant (stateOf (handleFocusChange (pointerEvent ''mousedown'' 0 0 (Some (bodyOf 2)))
      (stackedDesktop [0, 1, 2, 3, 4, 5, 6, 7, 8, 9, 10])))"
  by code_simp

text \<open>
  C3, on the code. In the same desktop, promoting the window at 3 (cutoff 3) does not
  decrement the window at 10, although 10 is above the cutoff: it stays at 10, next to
  the target, while the window at 9 goes to 8.
\<close>

theorem handleFocusChange_eleven_decrement:
  "zIndex (styles (stateOf (handleFocusChange (pointerEvent ''mousedown'' 0 0 (Some (bodyOf 3)))
      (stackedDesktop [0, 1, 2, 3, 4, 5, 6, 7, 8, 9, 10]))) 10) = Some 10 \<and>
   zIndex (styles (stateOf (handleFocusChange (pointerEvent ''mousedown'' 0 0 (Some (bodyOf 3)))
      (stackedDesktop [0, 1, 2, 3, 4, 5, 6, 7, 8, 9, 10]))) 9) = Some 8 \<and>
   zIndex (styles (stateOf (handleFocusChange (pointerEvent ''mousedown'' 0 0 (Some (bodyOf 3)))
      (stackedDesktop [0, 1, 2, 3, 4, 5, 6, 7, 8, 9, 10]))) 3) = Some 10"
  by code_simp

text \<open>
  C7, on the code. In the same desktop, promoting the window that is already topmost (at
  10) lowers the windows at 2 to 9, since each of their strings is greater than
  \<^verbatim>\<open>"10"\<close>: the zIndex values change.
\<close>

theorem handleFocusChange_eleven_topmost:
  "zValues (stackedDesktop [0, 1, 2, 3, 4, 5, 6, 7, 8, 9, 10])
     = [Some 0, Some 1, Some 2, Some 3, Some 4, Some 5, Some 6, Some 7, Some 8, Some 9, Some 10] \<and>
   zValues (stateOf (handleFocusChange (pointerEvent ''mousedown'' 0 0 (Some (bodyOf 10)))
      (stackedDesktop [0, 1, 2, 3, 4, 5, 6, 7, 8, 9, 10])))
     = [Some 0, Some 1, Some 1, Some 2, Some 3, Some 4, Some 5, Some 6, Some 7, Some 8, Some 10]"
  by code_simp

section \<open>Pointer protocol\<close>

text \<open>
  C5. A pointer-move (mouse or touch) delivered while no drag session is active returns
  the state as it was: no rectangle and no zIndex is altered.
\<close>

theorem handleMouseMove_idle:
  "dragState s = None \<Longrightarrow> handleMouseMove c ev s = Inr s \<and> handleTouchMove c ev s = Inr s"
  by (simp add: handleMouseMove_def handleTouchMove_def)

theorem handleMouseMove_idle_witness:
  "handleMouseMove exampleEnv (pointerEvent ''touchmove'' 0 0 None) (stackedDesktop [1, 0])
     = Inr (stackedDesktop [1, 0])"
  using handleMouseMove_idle
    [where s = "stackedDesktop [1, 0]" and c = exampleEnv and ev = "pointerEvent ''touchmove'' 0 0 None"]
  by (simp add: stackedDesktop_def)

text \<open>
  C10. For a touch-type event the position is that of the first touch point, read with no
  guard on the length of the list: with no active touch point the extraction throws, and
  a pointer-move during a drag session throws with it instead of doing nothing.
\<close>

theorem getEventPosition_touch:
  assumes "take 5 (eventType ev) = ''touch''"
  shows "(touches ev = [] \<longrightarrow>
            getEventPosition ev = Inl TypeError \<and>
            (\<forall>c s d. dragState s = Some d \<longrightarrow> handleMouseMove c ev s = Inl (TypeError, s))) \<and>
         (\<forall>t ts. touches ev = t # ts \<longrightarrow> getEventPosition ev = Inr (fst t, snd t))"
  using assms by (simp add: getEventPosition_def handleMouseMove_def)

theorem getEventPosition_touch_witness:
  "getEventPosition \<lparr>eventType = ''touchend'', clientX = 0, clientY = 0, touches = [], target = None\<rparr>
     = Inl TypeError \<and>
   getEventPosition \<lparr>eventType = ''touchmove'', clientX = 0, clientY = 0, touches = [(3, 4), (9, 9)], target = None\<rparr>
     = Inr (3, 4)"
  using getEventPosition_touch
      [where ev = "\<lparr>eventType = ''touchend'', clientX = 0, clientY = 0, touches = [], target = None\<rparr>"]
    getEventPosition_touch
      [where ev = "\<lparr>eventType = ''touchmove'', clientX = 0, clientY = 0, touches = [(3, 4), (9, 9)], target = None\<rparr>"]
  by simp

lemma handleFocusChange_dragState:
  "dragState (stateOf (handleFocusChange ev s)) = dragState s"
  by (simp add: handleFocusChange_def stateOf_def Let_def split: option.splits)

lemma handleFocusChange_returns:
  "target ev = Some e \<Longrightarrow> parentNode e = Some w \<Longrightarrow> \<exists>s1. handleFocusChange ev s = Inr s1"
  by (simp add: handleFocusChange_def Let_def)

text \<open>
  C8 (as amended). A pointer-down on a drag handle returns with a session built from this
  event alone (its element, its position, the rectangle of its window), whatever session
  was dangling before; a pointer-down on any other target leaves the session as it was.
\<close>

theorem handleMouseDown_session:
  "(\<forall>e w x y. target ev = Some e \<and> isDragElement (Some e) \<and> parentNode e = Some w \<and>
       getEventPosition ev = Inr (x, y) \<longrightarrow>
       (\<exists>s'. handleMouseDown c ev s = Inr s' \<and>
          dragState s' =
            Some \<lparr>dragElement = e, dragX = x, dragY = y,
                  dragTop = rectTop (getBoundingClientRect c (styles s') w),
                  dragLeft = rectLeft (getBoundingClientRect c (styles s') w),
                  dragWidth = rectWidth (getBoundingClientRect c (styles s') w),
                  dragHeight = rectHeight (getBoundingClientRect c (styles s') w)\<rparr>)) \<and>
   (\<not> isDragElement (target ev) \<longrightarrow>
       dragState (stateOf (handleMouseDown c ev s)) = dragState s)"
proof (intro conjI allI impI)
  fix e w x y
  assume a: "target ev = Some e \<and> isDragElement (Some e) \<and> parentNode e = Some w \<and>
       getEventPosition ev = Inr (x, y)"
  then obtain s1 where s1: "handleFocusChange ev s = Inr s1"
    using handleFocusChange_returns by blast
  have foc: "isFocusableElement (Some e)"
    using a by (simp add: isFocusableElement_def)
  show "\<exists>s'. handleMouseDown c ev s = Inr s' \<and>
          dragState s' =
            Some \<lparr>dragElement = e, dragX = x, dragY = y,
                  dragTop = rectTop (getBoundingClientRect c (styles s') w),
                  dragLeft = rectLeft (getBoundingClientRect c (styles s') w),
                  dragWidth = rectWidth (getBoundingClientRect c (styles s') w),
                  dragHeight = rectHeight (getBoundingClientRect c (styles s') w)\<rparr>"
    using a s1 foc by (simp add: handleMouseDown_def Let_def)
next
  assume nd: "\<not> isDragElement (target ev)"
  show "dragState (stateOf (handleMouseDown c ev s)) = dragState s"
  proof (cases "isFocusableElement (target ev)")
    case True
    then show ?thesis
      using nd handleFocusChange_dragState [of ev s]
      by (auto simp: handleMouseDown_def Let_def stateOf_def split: sum.splits)
  next
    case False
    then show ?thesis
      using nd by (simp add: handleMouseDown_def Let_def stateOf_def)
  qed
qed

theorem handleMouseDown_session_witness:
  "map_option dragElement
     (dragState (stateOf (handleMouseDown exampleEnv (pointerEvent ''mousedown'' 30 20 (Some (handleOf ResizeS 1)))
        ((stackedDesktop [0, 1])
           \<lparr>dragState := Some \<lparr>dragElement = handleOf Move 0, dragX = 50, dragY = 50, dragTop = 100,
                                dragLeft = 100, dragWidth = 200, dragHeight = 150\<rparr>\<rparr>))))
     = Some (handleOf ResizeS 1) \<and>
   map_option dragX
     (dragState (stateOf (handleMouseDown exampleEnv (pointerEvent ''mousedown'' 30 20 (Some (handleOf ResizeS 1)))
        ((stackedDesktop [0, 1])
           \<lparr>dragState := Some \<lparr>dragElement = handleOf Move 0, dragX = 50, dragY = 50, dragTop = 100,
                                dragLeft = 100, dragWidth = 200, dragHeight = 150\<rparr>\<rparr>))))
     = Some 30 \<and>
   dragState (stateOf (handleMouseDown exampleEnv (pointerEvent ''mousedown'' 30 20 (Some (bodyOf 1)))
        ((stackedDesktop [0, 1])
           \<lparr>dragState := Some \<lparr>dragElement = handleOf Move 0, dragX = 50, dragY = 50, dragTop = 100,
                                dragLeft = 100, dragWidth = 200, dragHeight = 150\<rparr>\<rparr>)))
     = Some \<lparr>dragElement = handleOf Move 0, dragX = 50, dragY = 50, dragTop = 100,
              dragLeft = 100, dragWidth = 200, dragHeight = 150\<rparr>"
  using handleMouseDown_session
    [where ev = "pointerEvent ''mousedown'' 30 20 (Some (handleOf ResizeS 1))" and c = exampleEnv
       and s = "(stackedDesktop [0, 1])
         \<lparr>dragState := Some \<lparr>dragElement = handleOf Move 0, dragX = 50, dragY = 50, dragTop = 100,
                              dragLeft = 100, dragWidth = 200, dragHeight = 150\<rparr>\<rparr>"]
    handleMouseDown_session
    [where ev = "pointerEvent ''mousedown'' 30 20 (Some (bodyOf 1))" and c = exampleEnv
       and s = "(stackedDesktop [0, 1])
         \<lparr>dragState := Some \<lparr>dragElement = handleOf Move 0, dragX = 50, dragY = 50, dragTop = 100,
                              dragLeft = 100, dragWidth = 200, dragHeight = 150\<rparr>\<rparr>"]
  by (auto simp add: pointerEvent_def handleOf_def bodyOf_def isDragElement_def getEventPosition_def
      stateOf_def)

text \<open>
  The claim as first stated, for any target, fails on a target that is no drag handle: a
  session left dangling on the title bar survives a pointer-down on the window body, and
  the next pointer-move at \<open>(70, 40)\<close> still moves the window to left 120.
\<close>

theorem handleMouseDown_body_counterexample:
  "returned (handleMouseDown exampleEnv (pointerEvent ''mousedown'' 10 10 (Some (bodyOf 0)))
      (oneWindow \<lparr>styleTop = 100, styleLeft = 100, styleWidth = 200, styleHeight = 150, zIndex = Some 0\<rparr>
         (Some \<lparr>dragElement = handleOf Move 0, dragX = 50, dragY = 50, dragTop = 100,
                 dragLeft = 100, dragWidth = 200, dragHeight = 150\<rparr>))) \<and>
   dragState (stateOf (handleMouseDown exampleEnv (pointerEvent ''mousedown'' 10 10 (Some (bodyOf 0)))
      (oneWindow \<lparr>styleTop = 100, styleLeft = 100, styleWidth = 200, styleHeight = 150, zIndex = Some 0\<rparr>
         (Some \<lparr>dragElement = handleOf Move 0, dragX = 50, dragY = 50, dragTop = 100,
                 dragLeft = 100, dragWidth = 200, dragHeight = 150\<rparr>))))
     = Some \<lparr>dragElement = handleOf Move 0, dragX = 50, dragY = 50, dragTop = 100,
              dragLeft = 100, dragWidth = 200, dragHeight = 150\<rparr> \<and>
   styleLeft (styles (stateOf (handleMouseMove exampleEnv (pointerEvent ''mousemove'' 70 40 None)
      (stateOf (handleMouseDown exampleEnv (pointerEvent ''mousedown'' 10 10 (Some (bodyOf 0)))
         (oneWindow \<lparr>styleTop = 100, styleLeft = 100, styleWidth = 200, styleHeight = 150, zIndex = Some 0\<rparr>
            (Some \<lparr>dragElement = handleOf Move 0, dragX = 50, dragY = 50, dragTop = 100,
                    dragLeft = 100, dragWidth = 200, dragHeight = 150\<rparr>)))))) 0) = 120"
  by (simp add: handleMouseDown_def handleMouseMove_def handleFocusChange_def lowerWindow_def
      isFocusableElement_def isDragElement_def getEventPosition_def onElement_def moveElement_def
      oneWindow_def handleOf_def bodyOf_def pointerEvent_def exampleEnv_def stateOf_def
      returned_def zIndexString_def stringGreater_def numberToString_def numberDigits.simps Let_def)

section \<open>Viewport fallback\<close>




text \<open>With one child, or none, the effect throws on either branch.\<close>

lemma Desktop_not_an_array:
  "Desktop (OnlyChild c) width height = Inl TypeError"
  "Desktop NoChildren width height = Inl TypeError"
  by (simp_all add: Desktop_def Let_def)

end
